theory Spec2Isabelle
  imports Main "HOL-Library.Sublist"
begin

section \<open>The Yul pipeline of libyul/YulStack.cpp\<close>

text \<open>
  A shallow embedding of \<^verbatim>\<open>YulStack\<close>: the pipeline object is a record that every
  operation takes and returns; a failing \<^verbatim>\<open>yulAssert\<close>/\<^verbatim>\<open>solAssert\<close> is the value
  \<open>Inl (AssertionFailed msg)\<close>; an \<^verbatim>\<open>UnimplementedFeatureError\<close> thrown by a collaborator is
  a value the collaborator returns. The collaborators the file calls but does not define
  (parser, analyzer, optimizer suite, printer, code generator, assembler) are the fields of
  one record of functions, \<open>X\<close>, that every operation takes: what is proved holds for every
  behaviour of theirs.
\<close>

subsection \<open>Data model\<close>

type_synonym bytes = "nat list"
type_synonym EVMVersion = nat
type_synonym EOFVersion = "nat option"
type_synonym DebugInfoSelection = nat
type_synonym SourceLocation = "int \<times> int \<times> string option"

datatype Language = Yul | Assembly | StrictAssembly

datatype Machine = EVM

datatype State = Empty | Parsed | AnalysisSuccessful

text \<open>The enumerators in declaration order: \<^verbatim>\<open>m_stackState >= Parsed\<close> compares these.\<close>

fun stateIndex :: "State \<Rightarrow> nat" where
  "stateIndex Empty = 0"
| "stateIndex Parsed = 1"
| "stateIndex AnalysisSuccessful = 2"

instantiation State :: linorder
begin

definition less_eq_State :: "State \<Rightarrow> State \<Rightarrow> bool" where
  "less_eq_State a b = (stateIndex a \<le> stateIndex b)"

definition less_State :: "State \<Rightarrow> State \<Rightarrow> bool" where
  "less_State a b = (stateIndex a < stateIndex b)"

instance
proof
  fix x y z :: State
  show "(x < y) = (x \<le> y \<and> \<not> y \<le> x)"
    by (auto simp: less_eq_State_def less_State_def)
  show "x \<le> x"
    by (simp add: less_eq_State_def)
  show "x \<le> y \<Longrightarrow> y \<le> z \<Longrightarrow> x \<le> z"
    by (simp add: less_eq_State_def)
  show "x \<le> y \<Longrightarrow> y \<le> x \<Longrightarrow> x = y"
    by (cases x; cases y) (simp_all add: less_eq_State_def)
  show "x \<le> y \<or> y \<le> x"
    by (auto simp: less_eq_State_def)
qed

end

datatype Dialect = StrictAssemblyForEVMObjects EVMVersion | EVMDialectTyped EVMVersion

fun languageToDialect :: "Language \<Rightarrow> EVMVersion \<Rightarrow> Dialect" where
  "languageToDialect Assembly v = StrictAssemblyForEVMObjects v"
| "languageToDialect StrictAssembly v = StrictAssemblyForEVMObjects v"
| "languageToDialect Yul v = EVMDialectTyped v"

text \<open>
  The object tree. \<^verbatim>\<open>subObjects\<close> holds \<^verbatim>\<open>ObjectNode\<close>s, each an \<^verbatim>\<open>Object\<close> or a
  \<^verbatim>\<open>Data\<close>; the \<^verbatim>\<open>dynamic_cast<Object*>\<close> of the two traversals is the case distinction
  on \<open>ObjectNode\<close>. \<open>'a\<close> is the AST of a unit, \<open>'i\<close> its analysis info; a null
  \<^verbatim>\<open>shared_ptr\<close> is \<open>None\<close>.
\<close>

datatype ('a, 'i) Object =
  Object (name: string) (code: "'a option") (analysisInfo: "'i option")
         (subObjects: "('a, 'i) ObjectNode list")
and ('a, 'i) ObjectNode =
  ObjectN "('a, 'i) Object"
| DataN string bytes

definition hasCode :: "('a, 'i) Object \<Rightarrow> bool" where
  "hasCode obj = (code obj \<noteq> None)"

datatype CharStream = CharStream (m_source: string) (m_name: string)

datatype UnimplementedFeatureError =
  UnimplementedFeatureError (comment: "string option") (sourceLocation: SourceLocation)

datatype ErrorType = UnimplementedFeatureErrorType | ParserError | TypeError | DeclarationError | Warning

datatype Error =
  Error (errorId: nat) (errorType: ErrorType) (location: SourceLocation) (description: string)

text \<open>
  A failed assertion is not caught anywhere in the file: it ends the operation.
  \<open>Thrown\<close> is what the recursive optimizer can leave with: a failed assertion, or the
  fault of a collaborator that \<^verbatim>\<open>optimize()\<close> catches.
\<close>

datatype Fatal = AssertionFailed string

datatype Thrown = Assertion string | Unimplemented UnimplementedFeatureError

record OptimiserSettings =
  runYulOptimiser :: bool
  optimizeStackAllocation :: bool
  yulOptimiserSteps :: string
  yulOptimiserCleanupSteps :: string
  expectedExecutionsPerDeployment :: nat

record GasMeter =
  meter_dialect :: Dialect
  meter_isCreation :: bool
  meter_runs :: nat

text \<open>One invocation of \<^verbatim>\<open>OptimiserSuite::run\<close>: its arguments, in the order of the call
  (the last one, the externally used identifiers, is always empty).\<close>

record ('a, 'i) SuiteCall =
  arg_dialect :: Dialect
  arg_meter :: "GasMeter option"
  arg_object :: "('a, 'i) Object"
  arg_optimizeStackAllocation :: bool
  arg_optimisationSequence :: string
  arg_optimisationCleanupSequence :: string
  arg_expectedExecutionsPerDeployment :: "nat option"

datatype Assembly =
  AssemblyC (assemblyName: string) (items: "nat list") (subs: "Assembly list")

record LinkerObject =
  bytecode :: bytes
  immutableReferences :: "(string \<times> nat) list"

record MachineAssemblyObject =
  mao_bytecode :: "LinkerObject option"
  mao_assembly :: "Assembly option"
  mao_sourceMappings :: "string option"

definition emptyMachineAssemblyObject :: MachineAssemblyObject where
  "emptyMachineAssemblyObject =
     \<lparr>mao_bytecode = None, mao_assembly = None, mao_sourceMappings = None\<rparr>"

text \<open>
  The collaborators. Each returns what it appends to the error reporter, what it leaves in
  the object it mutates, and the \<^verbatim>\<open>UnimplementedFeatureError\<close> it throws, if any.
\<close>

record ('a, 'i) Collaborators =
  ObjectParser_parse ::
    "Dialect \<Rightarrow> CharStream \<Rightarrow> Error list \<times> (UnimplementedFeatureError + ('a, 'i) Object option)"
  newAsmAnalysisInfo :: "'i"
  qualifiedDataNames :: "('a, 'i) Object \<Rightarrow> string list"
  AsmAnalyzer_analyze ::
    "Dialect \<Rightarrow> string list \<Rightarrow> 'a \<Rightarrow> Error list \<times> 'i \<times> (UnimplementedFeatureError + bool)"
  containsMSize :: "Dialect \<Rightarrow> ('a, 'i) Object \<Rightarrow> bool"
  isEmptyOptimizerSequence :: "string \<Rightarrow> bool"
  DefaultYulOptimiserSteps :: string
  DefaultYulOptimiserCleanupSteps :: string
  OptimiserSuite_run ::
    "('a, 'i) SuiteCall \<Rightarrow> ('a, 'i) Object \<times> UnimplementedFeatureError option"
  Object_toString :: "Dialect \<Rightarrow> DebugInfoSelection \<Rightarrow> ('a, 'i) Object \<Rightarrow> string"
  formatErrorInformation :: "Error list \<Rightarrow> string"
  EVMObjectCompiler_compile ::
    "('a, 'i) Object \<Rightarrow> Assembly \<Rightarrow> Dialect \<Rightarrow> bool \<Rightarrow> EOFVersion
       \<Rightarrow> Assembly \<times> UnimplementedFeatureError option"
  Assembly_optimise ::
    "OptimiserSettings \<Rightarrow> EVMVersion \<Rightarrow> Assembly \<Rightarrow> Assembly \<times> UnimplementedFeatureError option"
  Assembly_assemble :: "Assembly \<Rightarrow> UnimplementedFeatureError + LinkerObject"
  computeSourceMapping :: "nat list \<Rightarrow> (string \<times> nat) list \<Rightarrow> string"

record ('a, 'i) YulStack =
  m_language :: Language
  m_evmVersion :: EVMVersion
  m_eofVersion :: EOFVersion
  m_optimiserSettings :: OptimiserSettings
  m_debugInfoSelection :: DebugInfoSelection
  m_charStream :: "CharStream option"
  m_stackState :: State
  m_parserResult :: "('a, 'i) Object option"
  m_errors :: "Error list"

text \<open>Modelled from the spec: the constructor of \<^verbatim>\<open>YulStack\<close> (declared in YulStack.h):
  a fresh pipeline instance holds the configuration it is given, is in state \<open>Empty\<close>, and has
  no source, no tree and no diagnostics.\<close>

definition newYulStack ::
  "EVMVersion \<Rightarrow> EOFVersion \<Rightarrow> Language \<Rightarrow> OptimiserSettings \<Rightarrow> DebugInfoSelection
     \<Rightarrow> ('a, 'i) YulStack" where
  "newYulStack evmVersion eofVersion language optimiserSettings debugInfoSelection =
     \<lparr>m_language = language, m_evmVersion = evmVersion, m_eofVersion = eofVersion,
      m_optimiserSettings = optimiserSettings, m_debugInfoSelection = debugInfoSelection,
      m_charStream = None, m_stackState = Empty, m_parserResult = None, m_errors = []\<rparr>"

definition dialectOf :: "('a, 'i) YulStack \<Rightarrow> Dialect" where
  "dialectOf s = languageToDialect (m_language s) (m_evmVersion s)"

subsection \<open>Diagnostics\<close>

text \<open>Modelled from the spec: \<^verbatim>\<open>ErrorReporter::unimplementedFeatureError\<close> (liblangutil) adds
  one structured diagnostic to the instance's ordered collection, \<open>m_errors\<close>, which the
  reporter wraps.\<close>

definition reportUnimplementedFeatureError ::
  "UnimplementedFeatureError \<Rightarrow> ('a, 'i) YulStack \<Rightarrow> Fatal + ('a, 'i) YulStack" where
  "reportUnimplementedFeatureError e s =
     (case comment e of
        None \<Rightarrow> Inl (AssertionFailed ''Unimplemented feature errors must include a message for the user'')
      | Some msg \<Rightarrow>
          Inr (s\<lparr>m_errors :=
                  m_errors s @ [Error 1920 UnimplementedFeatureErrorType (sourceLocation e) msg]\<rparr>))"

subsection \<open>parse\<close>

definition parse ::
  "('a, 'i) Collaborators \<Rightarrow> string \<Rightarrow> string \<Rightarrow> ('a, 'i) YulStack
     \<Rightarrow> Fatal + bool \<times> ('a, 'i) YulStack" where
  "parse X sourceName source s =
     (if m_stackState s \<noteq> Empty then Inl (AssertionFailed [])
      else
        let cs = CharStream source sourceName;
            s1 = s\<lparr>m_charStream := Some cs\<rparr>;
            (errs, r) = ObjectParser_parse X (dialectOf s1) cs;
            s2 = s1\<lparr>m_errors := m_errors s1 @ errs\<rparr>
        in case (case r of
                   Inr tree \<Rightarrow> Inr (s2\<lparr>m_parserResult := tree\<rparr>)
                 | Inl e \<Rightarrow> reportUnimplementedFeatureError e s2) of
             Inl a \<Rightarrow> Inl a
           | Inr s3 \<Rightarrow>
               let s4 = (if m_errors s3 = [] then s3\<lparr>m_stackState := Parsed\<rparr> else s3)
               in Inr (m_stackState s4 = Parsed, s4))"

subsection \<open>analyzeParsed\<close>

text \<open>
  \<^verbatim>\<open>analyzeParsed(Object&)\<close> mutates the unit in place (its \<open>analysisInfo\<close>) and the
  instance (\<open>m_errors\<close>, \<open>m_stackState\<close>): it returns the three. The loop over
  \<open>subObjects\<close> is \<open>analyzeSubObjects\<close>, with the local \<open>success\<close> as accumulator; it is
  only run when \<^verbatim>\<open>analyzer.analyze\<close> has returned, since a fault thrown there leaves the
  \<^verbatim>\<open>try\<close> block. A recursive call catches its own faults, so only a failed assertion
  leaves it.
\<close>

fun analyzeParsedObject ::
  "('a, 'i) Collaborators \<Rightarrow> ('a, 'i) Object \<Rightarrow> ('a, 'i) YulStack
     \<Rightarrow> Fatal + bool \<times> ('a, 'i) Object \<times> ('a, 'i) YulStack"
and analyzeSubObjects ::
  "('a, 'i) Collaborators \<Rightarrow> ('a, 'i) ObjectNode list \<Rightarrow> bool \<Rightarrow> ('a, 'i) YulStack
     \<Rightarrow> Fatal + bool \<times> ('a, 'i) ObjectNode list \<times> ('a, 'i) YulStack"
where
  "analyzeParsedObject X (Object n c ai subObjs) s =
     (if \<not> m_stackState s \<ge> Parsed then Inl (AssertionFailed [])
      else case c of
        None \<Rightarrow> Inl (AssertionFailed [])
      | Some ast \<Rightarrow>
          (case AsmAnalyzer_analyze X (dialectOf s)
                  (qualifiedDataNames X (Object n c (Some (newAsmAnalysisInfo X)) subObjs)) ast of
             (errs, info, r) \<Rightarrow>
               (case r of
                  Inl e \<Rightarrow>
                    (case reportUnimplementedFeatureError e (s\<lparr>m_errors := m_errors s @ errs\<rparr>) of
                       Inl a \<Rightarrow> Inl a
                     | Inr s2 \<Rightarrow> Inr (False, Object n c (Some info) subObjs, s2))
                | Inr ok \<Rightarrow>
                    (case analyzeSubObjects X subObjs ok (s\<lparr>m_errors := m_errors s @ errs\<rparr>) of
                       Inl a \<Rightarrow> Inl a
                     | Inr (success, subObjs', s2) \<Rightarrow>
                         Inr (success, Object n c (Some info) subObjs',
                              if success then s2\<lparr>m_stackState := AnalysisSuccessful\<rparr> else s2)))))"
| "analyzeSubObjects X [] success s = Inr (success, [], s)"
| "analyzeSubObjects X (DataN dn d # rest) success s =
     (case analyzeSubObjects X rest success s of
        Inl a \<Rightarrow> Inl a
      | Inr (b, rest', s') \<Rightarrow> Inr (b, DataN dn d # rest', s'))"
| "analyzeSubObjects X (ObjectN subObject # rest) success s =
     (case analyzeParsedObject X subObject s of
        Inl a \<Rightarrow> Inl a
      | Inr (ok, subObject', s1) \<Rightarrow>
          (case analyzeSubObjects X rest (if \<not> ok then False else success) s1 of
             Inl a \<Rightarrow> Inl a
           | Inr (b, rest', s2) \<Rightarrow> Inr (b, ObjectN subObject' # rest', s2)))"

definition analyzeParsed ::
  "('a, 'i) Collaborators \<Rightarrow> ('a, 'i) YulStack \<Rightarrow> Fatal + bool \<times> ('a, 'i) YulStack" where
  "analyzeParsed X s =
     (if \<not> m_stackState s \<ge> Parsed then Inl (AssertionFailed [])
      else case m_parserResult s of
        None \<Rightarrow> Inl (AssertionFailed [])
      | Some obj \<Rightarrow>
          (case analyzeParsedObject X obj s of
             Inl a \<Rightarrow> Inl a
           | Inr (success, obj', s') \<Rightarrow> Inr (success, s'\<lparr>m_parserResult := Some obj'\<rparr>)))"

definition parseAndAnalyze ::
  "('a, 'i) Collaborators \<Rightarrow> string \<Rightarrow> string \<Rightarrow> ('a, 'i) YulStack
     \<Rightarrow> Fatal + bool \<times> ('a, 'i) YulStack" where
  "parseAndAnalyze X sourceName source s =
     (let s0 = s\<lparr>m_errors := []\<rparr>
      in if m_stackState s0 \<noteq> Empty then Inl (AssertionFailed [])
         else case parse X sourceName source s0 of
           Inl a \<Rightarrow> Inl a
         | Inr (parsed, s1) \<Rightarrow>
             if \<not> parsed then Inr (False, s1)
             else if m_stackState s1 \<noteq> Parsed then Inl (AssertionFailed [])
             else case m_parserResult s1 of
               None \<Rightarrow> Inl (AssertionFailed [])
             | Some obj \<Rightarrow>
                 if \<not> hasCode obj then Inl (AssertionFailed [])
                 else analyzeParsed X s1)"

subsection \<open>optimize(Object&, bool)\<close>

definition ends_with :: "string \<Rightarrow> string \<Rightarrow> bool" where
  "ends_with input test = suffix test input"

text \<open>The immediately invoked lambda of \<^verbatim>\<open>optimize(Object&, bool)\<close> that resolves
  \<^verbatim>\<open>[optimizeStackAllocation, yulOptimiserSteps, yulOptimiserCleanupSteps]\<close>.\<close>

definition resolvedOptimiserSteps ::
  "('a, 'i) Collaborators \<Rightarrow> OptimiserSettings \<Rightarrow> Fatal + bool \<times> string \<times> string" where
  "resolvedOptimiserSteps X st =
     (if \<not> runYulOptimiser st then
        (if isEmptyOptimizerSequence X (yulOptimiserSteps st @ '':'' @ yulOptimiserCleanupSteps st)
         then Inr (True, [], [])
         else if \<not> (yulOptimiserSteps st = DefaultYulOptimiserSteps X \<and>
                     yulOptimiserCleanupSteps st = DefaultYulOptimiserCleanupSteps X)
         then Inl (AssertionFailed [])
         else Inr (True, ''u'', []))
      else Inr (optimizeStackAllocation st, yulOptimiserSteps st, yulOptimiserCleanupSteps st))"

text \<open>
  \<^verbatim>\<open>optimize(Object&, bool)\<close> reads the instance and mutates the unit in place. It
  returns the unit as it leaves it (also when it leaves by an exception: the sub-units
  optimized so far stay optimized), the invocations of \<^verbatim>\<open>OptimiserSuite::run\<close> it made, in
  order, and the exception it left with, if any. Every dialect \<open>languageToDialect\<close> returns
  is an \<^verbatim>\<open>EVMDialect\<close>, so the meter is always built.
\<close>

fun optimizeObject ::
  "('a, 'i) Collaborators \<Rightarrow> ('a, 'i) YulStack \<Rightarrow> ('a, 'i) Object \<Rightarrow> bool
     \<Rightarrow> ('a, 'i) Object \<times> ('a, 'i) SuiteCall list \<times> Thrown option"
and optimizeSubObjects ::
  "('a, 'i) Collaborators \<Rightarrow> ('a, 'i) YulStack \<Rightarrow> ('a, 'i) ObjectNode list
     \<Rightarrow> ('a, 'i) ObjectNode list \<times> ('a, 'i) SuiteCall list \<times> Thrown option"
where
  "optimizeObject X s (Object n c ai subObjs) isCreation =
     (if c = None then (Object n c ai subObjs, [], Some (Assertion []))
      else if ai = None then (Object n c ai subObjs, [], Some (Assertion []))
      else case optimizeSubObjects X s subObjs of
        (subObjs', calls, Some ex) \<Rightarrow> (Object n c ai subObjs', calls, Some ex)
      | (subObjs', calls, None) \<Rightarrow>
          (case resolvedOptimiserSteps X (m_optimiserSettings s) of
             Inl (AssertionFailed msg) \<Rightarrow> (Object n c ai subObjs', calls, Some (Assertion msg))
           | Inr (stackAllocation, steps, cleanupSteps) \<Rightarrow>
               (let call =
                      \<lparr>arg_dialect = dialectOf s,
                       arg_meter = Some \<lparr>meter_dialect = dialectOf s, meter_isCreation = isCreation,
                         meter_runs = expectedExecutionsPerDeployment (m_optimiserSettings s)\<rparr>,
                       arg_object = Object n c ai subObjs',
                       arg_optimizeStackAllocation = stackAllocation,
                       arg_optimisationSequence = steps,
                       arg_optimisationCleanupSequence = cleanupSteps,
                       arg_expectedExecutionsPerDeployment =
                         (if isCreation then None
                          else Some (expectedExecutionsPerDeployment (m_optimiserSettings s)))\<rparr>
                in case OptimiserSuite_run X call of
                     (obj', thrown) \<Rightarrow> (obj', calls @ [call], map_option Unimplemented thrown))))"
| "optimizeSubObjects X s [] = ([], [], None)"
| "optimizeSubObjects X s (DataN dn d # rest) =
     (case optimizeSubObjects X s rest of
        (rest', calls, thrown) \<Rightarrow> (DataN dn d # rest', calls, thrown))"
| "optimizeSubObjects X s (ObjectN subObject # rest) =
     (case optimizeObject X s subObject (\<not> ends_with (name subObject) ''_deployed'') of
        (subObject', calls, Some ex) \<Rightarrow> (ObjectN subObject' # rest, calls, Some ex)
      | (subObject', calls, None) \<Rightarrow>
          (case optimizeSubObjects X s rest of
             (rest', calls', thrown) \<Rightarrow> (ObjectN subObject' # rest', calls @ calls', thrown)))"

subsection \<open>print and reparse\<close>

definition print :: "('a, 'i) Collaborators \<Rightarrow> ('a, 'i) YulStack \<Rightarrow> Fatal + string" where
  "print X s =
     (if \<not> m_stackState s \<ge> Parsed then Inl (AssertionFailed [])
      else case m_parserResult s of
        None \<Rightarrow> Inl (AssertionFailed [])
      | Some obj \<Rightarrow>
          if \<not> hasCode obj then Inl (AssertionFailed [])
          else Inr (Object_toString X (dialectOf s) (m_debugInfoSelection s) obj @ [CHR 0x0A]))"

definition reparse :: "('a, 'i) Collaborators \<Rightarrow> ('a, 'i) YulStack \<Rightarrow> Fatal + ('a, 'i) YulStack" where
  "reparse X s =
     (case m_parserResult s of
        None \<Rightarrow> Inl (AssertionFailed [])
      | Some obj \<Rightarrow>
          (case m_charStream s of
             None \<Rightarrow> Inl (AssertionFailed [])
           | Some cs \<Rightarrow>
               (case print X s of
                  Inl a \<Rightarrow> Inl a
                | Inr source \<Rightarrow>
                    (case parseAndAnalyze X (m_name cs) source
                            (newYulStack (m_evmVersion s) (m_eofVersion s) (m_language s)
                               (m_optimiserSettings s) (m_debugInfoSelection s)) of
                       Inl a \<Rightarrow> Inl a
                     | Inr (reanalysisSuccessful, cleanStack) \<Rightarrow>
                         if \<not> reanalysisSuccessful then
                           Inl (AssertionFailed
                                  (source @ [CHR 0x0A, CHR 0x0A] @ ''Invalid IR generated:'' @ [CHR 0x0A] @
                                   formatErrorInformation X (m_errors cleanStack) @ [CHR 0x0A]))
                         else
                           Inr (s\<lparr>m_stackState := AnalysisSuccessful,
                                  m_parserResult := m_parserResult cleanStack\<rparr>)))))"

subsection \<open>optimize()\<close>

text \<open>\<^verbatim>\<open>optimize()\<close> returns the invocations of the optimizer suite it caused, and either the
  failed assertion it left with or the instance as it leaves it.\<close>

definition optimize ::
  "('a, 'i) Collaborators \<Rightarrow> ('a, 'i) YulStack
     \<Rightarrow> ('a, 'i) SuiteCall list \<times> (Fatal + ('a, 'i) YulStack)" where
  "optimize X s =
     (if \<not> m_stackState s \<ge> AnalysisSuccessful then
        ([], Inl (AssertionFailed ''Analysis was not successful.''))
      else case m_parserResult s of
        None \<Rightarrow> ([], Inl (AssertionFailed []))
      | Some obj \<Rightarrow>
          if \<not> runYulOptimiser (m_optimiserSettings s) \<and> containsMSize X (dialectOf s) obj
          then ([], Inr s)
          else
            (case optimizeObject X (s\<lparr>m_stackState := Parsed\<rparr>) obj True of
               (obj', calls, thrown) \<Rightarrow>
                 (let s2 = s\<lparr>m_stackState := Parsed, m_parserResult := Some obj'\<rparr>
                  in case thrown of
                       Some (Assertion msg) \<Rightarrow> (calls, Inl (AssertionFailed msg))
                     | Some (Unimplemented e) \<Rightarrow> (calls, reportUnimplementedFeatureError e s2)
                     | None \<Rightarrow> (calls, reparse X s2))))"

subsection \<open>Assembly\<close>

text \<open>\<^verbatim>\<open>compileEVM\<close> hands \<^verbatim>\<open>*m_parserResult\<close> to the code generator; \<open>obj\<close> is that tree,
  which the one caller has asserted to be there. The generator fills the assembly it is
  given through the adapter.\<close>

definition compileEVM ::
  "('a, 'i) Collaborators \<Rightarrow> ('a, 'i) YulStack \<Rightarrow> ('a, 'i) Object \<Rightarrow> Assembly \<Rightarrow> bool
     \<Rightarrow> Assembly \<times> UnimplementedFeatureError option" where
  "compileEVM X s obj assembly opt =
     EVMObjectCompiler_compile X obj assembly (dialectOf s) opt (m_eofVersion s)"

text \<open>The loop that picks the first sub-assembly of the given name, from index \<open>i\<close> on.\<close>

fun findSubIndex :: "Assembly list \<Rightarrow> string \<Rightarrow> nat \<Rightarrow> nat option" where
  "findSubIndex [] deployName i = None"
| "findSubIndex (sub # rest) deployName i =
     (if assemblyName sub = deployName then Some i else findSubIndex rest deployName (Suc i))"

text \<open>The first member of the pair the function returns is never null, so it is an
  \<open>Assembly\<close>; the second is \<open>None\<close> for the null pointer.\<close>

definition assembleEVMWithDeployed ::
  "('a, 'i) Collaborators \<Rightarrow> string option \<Rightarrow> ('a, 'i) YulStack
     \<Rightarrow> Fatal + (Assembly \<times> Assembly option) \<times> ('a, 'i) YulStack" where
  "assembleEVMWithDeployed X deployName s =
     (if \<not> m_stackState s \<ge> AnalysisSuccessful then Inl (AssertionFailed [])
      else case m_parserResult s of
        None \<Rightarrow> Inl (AssertionFailed [])
      | Some obj \<Rightarrow>
          if \<not> hasCode obj then Inl (AssertionFailed [])
          else if analysisInfo obj = None then Inl (AssertionFailed [])
          else
            (let opt = (optimizeStackAllocation (m_optimiserSettings s) \<or>
                        (\<not> runYulOptimiser (m_optimiserSettings s) \<and>
                         \<not> containsMSize X (dialectOf s) obj))
             in case compileEVM X s obj (AssemblyC [] [] []) opt of
                  (assembly, Some e) \<Rightarrow>
                    (case reportUnimplementedFeatureError e s of
                       Inl a \<Rightarrow> Inl a
                     | Inr s' \<Rightarrow> Inr ((assembly, None), s'))
                | (assembly, None) \<Rightarrow>
                    (case Assembly_optimise X (m_optimiserSettings s) (m_evmVersion s) assembly of
                       (assembly', Some e) \<Rightarrow>
                         (case reportUnimplementedFeatureError e s of
                            Inl a \<Rightarrow> Inl a
                          | Inr s' \<Rightarrow> Inr ((assembly', None), s'))
                     | (assembly', None) \<Rightarrow>
                         (case deployName of
                            Some dn \<Rightarrow>
                              (case findSubIndex (subs assembly') dn 0 of
                                 None \<Rightarrow> Inl (AssertionFailed ''Failed to find object to be deployed.'')
                               | Some subIndex \<Rightarrow>
                                   Inr ((assembly', Some (subs assembly' ! subIndex)), s))
                          | None \<Rightarrow>
                              if length (subs assembly') = 1
                              then Inr ((assembly', Some (subs assembly' ! 0)), s)
                              else Inr ((assembly', None), s)))))"

definition machineAssemblyObject ::
  "('a, 'i) Collaborators \<Rightarrow> CharStream \<Rightarrow> LinkerObject \<Rightarrow> Assembly \<Rightarrow> MachineAssemblyObject" where
  "machineAssemblyObject X cs linked assembly =
     \<lparr>mao_bytecode = Some linked, mao_assembly = Some assembly,
      mao_sourceMappings = Some (computeSourceMapping X (items assembly) [(m_name cs, 0)])\<rparr>"

definition assembleWithDeployed ::
  "('a, 'i) Collaborators \<Rightarrow> string option \<Rightarrow> ('a, 'i) YulStack
     \<Rightarrow> Fatal + (MachineAssemblyObject \<times> MachineAssemblyObject) \<times> ('a, 'i) YulStack" where
  "assembleWithDeployed X deployName s =
     (case assembleEVMWithDeployed X deployName s of
        Inl a \<Rightarrow> Inl a
      | Inr ((creationAssembly, deployedAssembly), s1) \<Rightarrow>
          (case m_charStream s1 of
             None \<Rightarrow> Inl (AssertionFailed [])
           | Some cs \<Rightarrow>
               (case Assembly_assemble X creationAssembly of
                  Inl e \<Rightarrow>
                    (case reportUnimplementedFeatureError e s1 of
                       Inl a \<Rightarrow> Inl a
                     | Inr s2 \<Rightarrow> Inr ((emptyMachineAssemblyObject, emptyMachineAssemblyObject), s2))
                | Inr linked \<Rightarrow>
                    if immutableReferences linked \<noteq> [] then Inl (AssertionFailed ''Leftover immutables.'')
                    else
                      (let creationObject = machineAssemblyObject X cs linked creationAssembly
                       in case deployedAssembly of
                            None \<Rightarrow> Inr ((creationObject, emptyMachineAssemblyObject), s1)
                          | Some deployed \<Rightarrow>
                              (case Assembly_assemble X deployed of
                                 Inl e \<Rightarrow>
                                   (case reportUnimplementedFeatureError e s1 of
                                      Inl a \<Rightarrow> Inl a
                                    | Inr s2 \<Rightarrow>
                                        Inr ((creationObject, emptyMachineAssemblyObject), s2))
                               | Inr linkedDeployed \<Rightarrow>
                                   Inr ((creationObject,
                                         machineAssemblyObject X cs linkedDeployed deployed), s1))))))"

definition assemble ::
  "('a, 'i) Collaborators \<Rightarrow> Machine \<Rightarrow> ('a, 'i) YulStack
     \<Rightarrow> Fatal + MachineAssemblyObject \<times> ('a, 'i) YulStack" where
  "assemble X machine s =
     (if \<not> m_stackState s \<ge> AnalysisSuccessful then Inl (AssertionFailed [])
      else case m_parserResult s of
        None \<Rightarrow> Inl (AssertionFailed [])
      | Some obj \<Rightarrow>
          if \<not> hasCode obj then Inl (AssertionFailed [])
          else if analysisInfo obj = None then Inl (AssertionFailed [])
          else
            (case machine of
               EVM \<Rightarrow>
                 (case assembleWithDeployed X None s of
                    Inl a \<Rightarrow> Inl a
                  | Inr (objects, s') \<Rightarrow> Inr (fst objects, s'))))"

subsection \<open>The step-sequence resolution as the specification words it\<close>




subsection \<open>Example collaborators\<close>

text \<open>
  A small, executable set of collaborators on which the operations can be evaluated: the
  AST of a unit is its source text, its analysis info a number. The analyzer rejects the
  code \<open>bad\<close> with one diagnostic (naming the unit) and throws the
  unimplemented-feature fault on the code \<open>todo\<close>, as do the optimizer suite and the
  code generator; the suite marks the code of the unit it is given as optimized; the
  parser returns a single unit holding the text; the printer prints the root's code; the
  code generator emits one sub-assembly per sub-object, under its name; the assembler
  throws the fault on an assembly named \<open>todo\<close>.

  Modelled from the spec: \<open>isEmptyOptimizerSequence\<close> accepts the canonical "run nothing"
  sequence, "steps and cleanup both empty, joined by a separator".
\<close>

definition exampleFault :: UnimplementedFeatureError where
  "exampleFault = UnimplementedFeatureError (Some ''not implemented'') (0, 0, None)"

fun exampleOptimized :: "(string, nat) Object \<Rightarrow> (string, nat) Object" where
  "exampleOptimized (Object n c ai subObjs) =
     Object n (map_option (\<lambda>ast. ast @ '' optimized'') c) ai subObjs"

fun exampleSubAssemblies :: "(string, nat) ObjectNode list \<Rightarrow> Assembly list" where
  "exampleSubAssemblies [] = []"
| "exampleSubAssemblies (DataN dn d # rest) = exampleSubAssemblies rest"
| "exampleSubAssemblies (ObjectN obj # rest) = AssemblyC (name obj) [] [] # exampleSubAssemblies rest"

definition exampleCollaborators :: "(string, nat) Collaborators" where
  "exampleCollaborators =
     \<lparr>ObjectParser_parse = (\<lambda>dialect cs. ([], Inr (Some (Object ''object'' (Some (m_source cs)) None [])))),
      newAsmAnalysisInfo = 0,
      qualifiedDataNames = (\<lambda>obj. [name obj]),
      AsmAnalyzer_analyze = (\<lambda>dialect names ast.
         if ast = ''todo'' then ([], 0, Inl exampleFault)
         else if ast = ''bad'' then
           ([Error 4619 DeclarationError (0, 3, None) (''Function not found in '' @ concat names)],
            1, Inr False)
         else ([], 1, Inr True)),
      containsMSize = (\<lambda>dialect obj. code obj = Some ''msize''),
      isEmptyOptimizerSequence = (\<lambda>sequence. sequence = '':''),
      DefaultYulOptimiserSteps = ''dhfoDgvulfnTUtnIf'',
      DefaultYulOptimiserCleanupSteps = ''fDnTOcmu'',
      OptimiserSuite_run = (\<lambda>call.
         if code (arg_object call) = Some ''todo'' then (arg_object call, Some exampleFault)
         else (exampleOptimized (arg_object call), None)),
      Object_toString = (\<lambda>dialect debugInfoSelection obj. case code obj of Some ast \<Rightarrow> ast | None \<Rightarrow> []),
      formatErrorInformation = (\<lambda>errors. concat (map description errors)),
      EVMObjectCompiler_compile = (\<lambda>obj assembly dialect opt eofVersion.
         if code obj = Some ''todo'' then (assembly, Some exampleFault)
         else (AssemblyC (assemblyName assembly) [length (subObjects obj)]
                 (exampleSubAssemblies (subObjects obj)), None)),
      Assembly_optimise = (\<lambda>settings evmVersion assembly. (assembly, None)),
      Assembly_assemble = (\<lambda>assembly.
         if assemblyName assembly = ''todo'' then Inl exampleFault
         else Inr \<lparr>bytecode = items assembly, immutableReferences = []\<rparr>),
      computeSourceMapping = (\<lambda>items sources. [])\<rparr>"

definition exampleSettings :: "bool \<Rightarrow> string \<Rightarrow> string \<Rightarrow> OptimiserSettings" where
  "exampleSettings run steps cleanup =
     \<lparr>runYulOptimiser = run, optimizeStackAllocation = False, yulOptimiserSteps = steps,
      yulOptimiserCleanupSteps = cleanup, expectedExecutionsPerDeployment = 200\<rparr>"

text \<open>An instance that holds the tree \<open>tree\<close> in state \<open>st\<close>, for the source \<open>code\<close> named
  \<open>input.yul\<close>.\<close>

definition exampleStack ::
  "OptimiserSettings \<Rightarrow> State \<Rightarrow> (string, nat) Object \<Rightarrow> (string, nat) YulStack" where
  "exampleStack settings st tree =
     \<lparr>m_language = StrictAssembly, m_evmVersion = 0, m_eofVersion = None,
      m_optimiserSettings = settings, m_debugInfoSelection = 0,
      m_charStream = Some (CharStream ''code'' ''input.yul''), m_stackState = st,
      m_parserResult = Some tree, m_errors = []\<rparr>"

subsection \<open>Classification of the optimizer suite's invocations\<close>

text \<open>An invocation treats its unit as creation code (\<open>isCreation\<close>) or as runtime code:
  the gas meter is built for that kind, and the expected-executions weight is withheld
  from a creation unit and passed for a runtime unit.\<close>

definition passedAs :: "('a, 'i) YulStack \<Rightarrow> bool \<Rightarrow> ('a, 'i) SuiteCall \<Rightarrow> bool" where
  "passedAs s isCreation call =
     (arg_meter call =
        Some \<lparr>meter_dialect = dialectOf s, meter_isCreation = isCreation,
              meter_runs = expectedExecutionsPerDeployment (m_optimiserSettings s)\<rparr> \<and>
      arg_expectedExecutionsPerDeployment call =
        (if isCreation then None
         else Some (expectedExecutionsPerDeployment (m_optimiserSettings s))))"

text \<open>The unit of the invocation is runtime code iff its name ends with \<open>_deployed\<close>.\<close>

definition classifiedByName :: "('a, 'i) YulStack \<Rightarrow> ('a, 'i) SuiteCall \<Rightarrow> bool" where
  "classifiedByName s call =
     passedAs s (\<not> ends_with (name (arg_object call)) ''_deployed'') call"

text \<open>The invocations made for the unit \<open>obj\<close> itself: none (when the operation left
  before), or one, for a unit of that name, of the kind \<open>isCreation\<close>.\<close>

definition rootCallsAs ::
  "('a, 'i) YulStack \<Rightarrow> ('a, 'i) Object \<Rightarrow> bool \<Rightarrow> ('a, 'i) SuiteCall list \<Rightarrow> bool" where
  "rootCallsAs s obj isCreation rootCalls =
     (case rootCalls of
        [] \<Rightarrow> True
      | [call] \<Rightarrow> name (arg_object call) = name obj \<and> passedAs s isCreation call
      | _ \<Rightarrow> False)"



subsection \<open>The units an analysis visits\<close>

text \<open>What the analyzer returns for the unit \<open>u\<close>, invoked as \<open>analyzeParsed(Object&)\<close>
  invokes it: on the unit's own code, with the qualified data names of the unit as it is
  once its analysis info has been reset. \<open>None\<close> when the unit has no code.\<close>

definition unitAnalysis ::
  "('a, 'i) Collaborators \<Rightarrow> Dialect \<Rightarrow> ('a, 'i) Object
     \<Rightarrow> (Error list \<times> 'i \<times> (UnimplementedFeatureError + bool)) option" where
  "unitAnalysis X d u =
     map_option
       (AsmAnalyzer_analyze X d
          (qualifiedDataNames X
             (Object (name u) (code u) (Some (newAsmAnalysisInfo X)) (subObjects u))))
       (code u)"

text \<open>The verdict on a unit: the analyzer's, and failure when the analyzer throws the
  unimplemented-feature fault.\<close>

definition unitSucceeds :: "('a, 'i) Collaborators \<Rightarrow> Dialect \<Rightarrow> ('a, 'i) Object \<Rightarrow> bool" where
  "unitSucceeds X d u =
     (case unitAnalysis X d u of
        Some (errs, info, Inr ok) \<Rightarrow> ok
      | _ \<Rightarrow> False)"

text \<open>The diagnostics a unit contributes: the analyzer's, and the one that reports the
  fault when the analyzer throws it.\<close>

definition unitDiagnostics ::
  "('a, 'i) Collaborators \<Rightarrow> Dialect \<Rightarrow> ('a, 'i) Object \<Rightarrow> Error list" where
  "unitDiagnostics X d u =
     (case unitAnalysis X d u of
        None \<Rightarrow> []
      | Some (errs, info, Inr ok) \<Rightarrow> errs
      | Some (errs, info, Inl e) \<Rightarrow>
          errs @ [Error 1920 UnimplementedFeatureErrorType (sourceLocation e)
                    (case comment e of Some msg \<Rightarrow> msg | None \<Rightarrow> [])])"

text \<open>The analysis info a unit is left with.\<close>

definition unitInfo :: "('a, 'i) Collaborators \<Rightarrow> Dialect \<Rightarrow> ('a, 'i) Object \<Rightarrow> 'i option" where
  "unitInfo X d u = map_option (\<lambda>(errs, info, r). info) (unitAnalysis X d u)"

definition unitFaults :: "('a, 'i) Collaborators \<Rightarrow> Dialect \<Rightarrow> ('a, 'i) Object \<Rightarrow> bool" where
  "unitFaults X d u =
     (case unitAnalysis X d u of
        Some (errs, info, Inl e) \<Rightarrow> True
      | _ \<Rightarrow> False)"

text \<open>A unit the assertions accept: it has code, and a fault thrown on it carries its
  message.\<close>

definition unitAccepted :: "('a, 'i) Collaborators \<Rightarrow> Dialect \<Rightarrow> ('a, 'i) Object \<Rightarrow> bool" where
  "unitAccepted X d u =
     (case unitAnalysis X d u of
        None \<Rightarrow> False
      | Some (errs, info, Inl e) \<Rightarrow> comment e \<noteq> None
      | Some (errs, info, Inr ok) \<Rightarrow> True)"

text \<open>All units of a tree, and the units of a tree outside every unit on which the
  analyzer faults, both in pre-order (a unit before its sub-units, these in declaration
  order).\<close>

fun allUnits :: "('a, 'i) Object \<Rightarrow> ('a, 'i) Object list"
and allUnitsOfNodes :: "('a, 'i) ObjectNode list \<Rightarrow> ('a, 'i) Object list" where
  "allUnits (Object n c ai subObjs) = Object n c ai subObjs # allUnitsOfNodes subObjs"
| "allUnitsOfNodes [] = []"
| "allUnitsOfNodes (DataN dn d # rest) = allUnitsOfNodes rest"
| "allUnitsOfNodes (ObjectN obj # rest) = allUnits obj @ allUnitsOfNodes rest"

fun unitsOutsideFaults ::
  "('a, 'i) Collaborators \<Rightarrow> Dialect \<Rightarrow> ('a, 'i) Object \<Rightarrow> ('a, 'i) Object list"
and unitsOutsideFaultsOfNodes ::
  "('a, 'i) Collaborators \<Rightarrow> Dialect \<Rightarrow> ('a, 'i) ObjectNode list \<Rightarrow> ('a, 'i) Object list" where
  "unitsOutsideFaults X d (Object n c ai subObjs) =
     Object n c ai subObjs #
     (if unitFaults X d (Object n c ai subObjs) then []
      else unitsOutsideFaultsOfNodes X d subObjs)"
| "unitsOutsideFaultsOfNodes X d [] = []"
| "unitsOutsideFaultsOfNodes X d (DataN dn da # rest) = unitsOutsideFaultsOfNodes X d rest"
| "unitsOutsideFaultsOfNodes X d (ObjectN obj # rest) =
     unitsOutsideFaults X d obj @ unitsOutsideFaultsOfNodes X d rest"

text \<open>The tree an analysis leaves: every unit outside the faulting ones has the analysis
  info the analyzer produced for it; nothing else changes.\<close>

fun analysed :: "('a, 'i) Collaborators \<Rightarrow> Dialect \<Rightarrow> ('a, 'i) Object \<Rightarrow> ('a, 'i) Object"
and analysedNodes ::
  "('a, 'i) Collaborators \<Rightarrow> Dialect \<Rightarrow> ('a, 'i) ObjectNode list \<Rightarrow> ('a, 'i) ObjectNode list" where
  "analysed X d (Object n c ai subObjs) =
     Object n c (unitInfo X d (Object n c ai subObjs))
       (if unitFaults X d (Object n c ai subObjs) then subObjs else analysedNodes X d subObjs)"
| "analysedNodes X d [] = []"
| "analysedNodes X d (DataN dn da # rest) = DataN dn da # analysedNodes X d rest"
| "analysedNodes X d (ObjectN obj # rest) = ObjectN (analysed X d obj) # analysedNodes X d rest"

text \<open>What a traversal leaves in the instance: the diagnostics of the units it went
  through, appended in order; the configuration is untouched and the state stays at or
  above \<open>Parsed\<close>.\<close>

definition analysisPost ::
  "('a, 'i) Collaborators \<Rightarrow> ('a, 'i) YulStack \<Rightarrow> ('a, 'i) Object list \<Rightarrow> ('a, 'i) YulStack \<Rightarrow> bool" where
  "analysisPost X s visited s' =
     (m_errors s' = m_errors s @ concat (map (unitDiagnostics X (dialectOf s)) visited) \<and>
      dialectOf s' = dialectOf s \<and> Parsed \<le> m_stackState s')"

section \<open>Properties\<close>

subsection \<open>Auxiliary facts\<close>

lemma state_simps [simp]:
  "Empty < Parsed" "Parsed < AnalysisSuccessful" "Empty < AnalysisSuccessful"
  "(x \<ge> Empty) = True"
  "(s \<ge> AnalysisSuccessful) = (s = AnalysisSuccessful)"
  "(s < Parsed) = (s = Empty)"
  "(s \<ge> Parsed) = (s \<noteq> Empty)"
  "(s < AnalysisSuccessful) = (s \<noteq> AnalysisSuccessful)"
  by (cases s; cases x; simp add: less_eq_State_def less_State_def)+

lemma dialectOf_updates [simp]:
  "dialectOf (s\<lparr>m_errors := es\<rparr>) = dialectOf s"
  "dialectOf (s\<lparr>m_stackState := st\<rparr>) = dialectOf s"
  "dialectOf (s\<lparr>m_parserResult := t\<rparr>) = dialectOf s"
  by (simp_all add: dialectOf_def)







subsection \<open>Step-sequence resolution\<close>




subsection \<open>The no-op path of optimize()\<close>

text \<open>
  C3. For every pipeline instance in state \<open>AnalysisSuccessful\<close> whose optimizer suite is
  disabled and whose tree contains the sentinel instruction (msize), \<open>optimize()\<close> is a
  complete no-op: it returns the instance as it was (state, tree, diagnostics and
  everything else unchanged), and the optimizer suite is not invoked.
\<close>

theorem optimize_is_noop_on_disabled_suite_with_msize:
  assumes "m_stackState s = AnalysisSuccessful" and "m_parserResult s = Some obj"
    and "\<not> runYulOptimiser (m_optimiserSettings s)" and "containsMSize X (dialectOf s) obj"
  shows "optimize X s = ([], Inr s)"
  using assms by (simp add: optimize_def)

theorem optimize_is_noop_on_disabled_suite_with_msize_witness:
  "optimize exampleCollaborators
     (exampleStack (exampleSettings False ''dhfoDgvulfnTUtnIf'' ''fDnTOcmu'') AnalysisSuccessful
        (Object ''object'' (Some ''msize'') (Some 1) []))
   = ([], Inr (exampleStack (exampleSettings False ''dhfoDgvulfnTUtnIf'' ''fDnTOcmu'')
                 AnalysisSuccessful (Object ''object'' (Some ''msize'') (Some 1) [])))"
  by (rule optimize_is_noop_on_disabled_suite_with_msize
        [where obj = "Object ''object'' (Some ''msize'') (Some 1) []"])
     (simp_all add: exampleStack_def exampleSettings_def exampleCollaborators_def)

subsection \<open>Stage preconditions\<close>

text \<open>
  C9. Invoking a stage before its required prior stage is an assertion failure, which
  nothing in the pipeline catches: \<open>parse\<close> (and \<open>parseAndAnalyze\<close>) on an instance
  that is not in state \<open>Empty\<close>, \<open>analyzeParsed\<close> on one below \<open>Parsed\<close>, \<open>optimize\<close>
  and \<open>assemble\<close> on one below \<open>AnalysisSuccessful\<close>. A fresh instance is in state
  \<open>Empty\<close>, below both.
\<close>

theorem stage_before_its_prerequisite_fails_assertion:
  assumes "m_stackState s \<noteq> Empty" and "m_stackState t < Parsed"
    and "m_stackState u < AnalysisSuccessful"
  shows "parse X sourceName source s = Inl (AssertionFailed []) \<and>
         parseAndAnalyze X sourceName source s = Inl (AssertionFailed []) \<and>
         analyzeParsed X t = Inl (AssertionFailed []) \<and>
         analyzeParsedObject X obj t = Inl (AssertionFailed []) \<and>
         optimize X u = ([], Inl (AssertionFailed ''Analysis was not successful.'')) \<and>
         assemble X machine u = Inl (AssertionFailed []) \<and>
         assembleWithDeployed X deployName u = Inl (AssertionFailed [])"
  using assms
  by (cases obj)
     (simp add: parse_def parseAndAnalyze_def analyzeParsed_def optimize_def assemble_def
        assembleWithDeployed_def assembleEVMWithDeployed_def)

theorem stage_before_its_prerequisite_fails_assertion_witness:
  "parse exampleCollaborators ''input.yul'' ''code''
     (exampleStack (exampleSettings True [] []) Parsed (Object ''object'' (Some ''code'') None []))
     = Inl (AssertionFailed []) \<and>
   analyzeParsed exampleCollaborators
     (newYulStack 0 None StrictAssembly (exampleSettings True [] []) 0)
     = Inl (AssertionFailed []) \<and>
   optimize exampleCollaborators
     (exampleStack (exampleSettings True [] []) Parsed (Object ''object'' (Some ''code'') None []))
     = ([], Inl (AssertionFailed ''Analysis was not successful.'')) \<and>
   optimize exampleCollaborators
     (newYulStack 0 None StrictAssembly (exampleSettings True [] []) 0)
     = ([], Inl (AssertionFailed ''Analysis was not successful.'')) \<and>
   assemble exampleCollaborators EVM
     (newYulStack 0 None StrictAssembly (exampleSettings True [] []) 0)
     = Inl (AssertionFailed [])"
  using stage_before_its_prerequisite_fails_assertion
      [where s = "exampleStack (exampleSettings True [] []) Parsed
                    (Object ''object'' (Some ''code'') None [])"
         and t = "newYulStack 0 None StrictAssembly (exampleSettings True [] []) 0"
         and u = "exampleStack (exampleSettings True [] []) Parsed
                    (Object ''object'' (Some ''code'') None [])"
         and X = exampleCollaborators and sourceName = "''input.yul''" and source = "''code''"]
    stage_before_its_prerequisite_fails_assertion
      [where s = "exampleStack (exampleSettings True [] []) Parsed
                    (Object ''object'' (Some ''code'') None [])"
         and t = "newYulStack 0 None StrictAssembly (exampleSettings True [] []) 0"
         and u = "newYulStack 0 None StrictAssembly (exampleSettings True [] []) 0"
         and X = exampleCollaborators and machine = EVM]
  by (simp add: exampleStack_def newYulStack_def)

subsection \<open>assemble and assembleWithDeployed\<close>

text \<open>
  C10. On every pipeline instance (in state \<open>AnalysisSuccessful\<close> or not),
  \<open>assemble(Machine::EVM)\<close> gives exactly the creation member of the pair that
  \<open>assembleWithDeployed\<close> gives when no deploy name is supplied, with the same effect on
  the instance, and fails exactly when that fails; the deployed member is dropped.
\<close>

theorem assemble_is_creation_member_of_assembleWithDeployed:
  "assemble X EVM s =
     (case assembleWithDeployed X None s of
        Inl a \<Rightarrow> Inl a
      | Inr ((creationObject, deployedObject), s') \<Rightarrow> Inr (creationObject, s'))"
  by (simp add: assemble_def assembleWithDeployed_def assembleEVMWithDeployed_def
      split: option.splits sum.splits prod.splits)

theorem assemble_is_creation_member_of_assembleWithDeployed_witness:
  "fst (projr (assembleWithDeployed exampleCollaborators None
     (exampleStack (exampleSettings True [] []) AnalysisSuccessful
        (Object ''object'' (Some ''code'') (Some 1)
           [ObjectN (Object ''Runtime'' (Some ''code'') (Some 1) [])])))) =
     (\<lparr>mao_bytecode = Some \<lparr>bytecode = [1], immutableReferences = []\<rparr>,
         mao_assembly = Some (AssemblyC [] [1] [AssemblyC ''Runtime'' [] []]),
         mao_sourceMappings = Some []\<rparr>,
      \<lparr>mao_bytecode = Some \<lparr>bytecode = [], immutableReferences = []\<rparr>,
         mao_assembly = Some (AssemblyC ''Runtime'' [] []),
         mao_sourceMappings = Some []\<rparr>) \<and>
   assemble exampleCollaborators EVM
     (exampleStack (exampleSettings True [] []) AnalysisSuccessful
        (Object ''object'' (Some ''code'') (Some 1)
           [ObjectN (Object ''Runtime'' (Some ''code'') (Some 1) [])])) =
     Inr (\<lparr>mao_bytecode = Some \<lparr>bytecode = [1], immutableReferences = []\<rparr>,
            mao_assembly = Some (AssemblyC [] [1] [AssemblyC ''Runtime'' [] []]),
            mao_sourceMappings = Some []\<rparr>,
          exampleStack (exampleSettings True [] []) AnalysisSuccessful
            (Object ''object'' (Some ''code'') (Some 1)
               [ObjectN (Object ''Runtime'' (Some ''code'') (Some 1) [])]))"
  using assemble_is_creation_member_of_assembleWithDeployed
    [where X = exampleCollaborators
       and s = "exampleStack (exampleSettings True [] []) AnalysisSuccessful
                  (Object ''object'' (Some ''code'') (Some 1)
                     [ObjectN (Object ''Runtime'' (Some ''code'') (Some 1) [])])"]
  by (simp add: assembleWithDeployed_def assembleEVMWithDeployed_def exampleCollaborators_def
      exampleStack_def exampleSettings_def hasCode_def compileEVM_def machineAssemblyObject_def
      emptyMachineAssemblyObject_def dialectOf_def)

subsection \<open>The round-trip verifier\<close>

lemma reparse_result:
  assumes "m_parserResult s = Some obj" and "m_charStream s = Some cs"
  shows "reparse X s =
     (if \<not> Parsed \<le> m_stackState s \<or> \<not> hasCode obj then Inl (AssertionFailed [])
      else case parseAndAnalyze X (m_name cs)
                  (Object_toString X (dialectOf s) (m_debugInfoSelection s) obj @ [CHR 0x0A])
                  (newYulStack (m_evmVersion s) (m_eofVersion s) (m_language s)
                     (m_optimiserSettings s) (m_debugInfoSelection s)) of
        Inl a \<Rightarrow> Inl a
      | Inr (reanalysisSuccessful, cleanStack) \<Rightarrow>
          if reanalysisSuccessful
          then Inr (s\<lparr>m_stackState := AnalysisSuccessful,
                      m_parserResult := m_parserResult cleanStack\<rparr>)
          else Inl (AssertionFailed
                      ((Object_toString X (dialectOf s) (m_debugInfoSelection s) obj @ [CHR 0x0A]) @
                       [CHR 0x0A, CHR 0x0A] @ ''Invalid IR generated:'' @ [CHR 0x0A] @
                       formatErrorInformation X (m_errors cleanStack) @ [CHR 0x0A])))"
  using assms
  by (auto simp: reparse_def print_def split: sum.splits prod.splits if_splits)

text \<open>
  C4. The round-trip verifier prints the current tree, runs a fresh pipeline instance of
  the same configuration through parse-and-analyze on the printed text under the retained
  source name, and fails an assertion (carrying the generated source and the fresh
  instance's diagnostics) unless that succeeds. On success the instance is what it was,
  with the fresh instance's tree as the working tree and state \<open>AnalysisSuccessful\<close>:
  the character stream (source text and name) and the diagnostics are unchanged.
\<close>

theorem reparse_adopts_tree_of_fresh_instance:
  assumes "m_parserResult s = Some obj" and "hasCode obj" and "m_charStream s = Some cs"
    and "Parsed \<le> m_stackState s"
    and "source = Object_toString X (dialectOf s) (m_debugInfoSelection s) obj @ [CHR 0x0A]"
    and "fresh = newYulStack (m_evmVersion s) (m_eofVersion s) (m_language s)
                   (m_optimiserSettings s) (m_debugInfoSelection s)"
  shows "reparse X s =
     (case parseAndAnalyze X (m_name cs) source fresh of
        Inl a \<Rightarrow> Inl a
      | Inr (reanalysisSuccessful, cleanStack) \<Rightarrow>
          if reanalysisSuccessful
          then Inr (s\<lparr>m_stackState := AnalysisSuccessful,
                      m_parserResult := m_parserResult cleanStack\<rparr>)
          else Inl (AssertionFailed
                      (source @ [CHR 0x0A, CHR 0x0A] @ ''Invalid IR generated:'' @ [CHR 0x0A] @
                       formatErrorInformation X (m_errors cleanStack) @ [CHR 0x0A])))
     \<and> (\<forall>s'. reparse X s = Inr s' \<longrightarrow>
           m_charStream s' = m_charStream s \<and> m_errors s' = m_errors s \<and>
           m_stackState s' = AnalysisSuccessful \<and>
           (\<exists>cleanStack. parseAndAnalyze X (m_name cs) source fresh = Inr (True, cleanStack) \<and>
              m_parserResult s' = m_parserResult cleanStack))"
  using assms reparse_result [of s obj cs X]
  by (auto split: sum.splits prod.splits if_splits)

theorem reparse_adopts_tree_of_fresh_instance_witness:
  "reparse exampleCollaborators
     ((exampleStack (exampleSettings True [] []) Parsed
         (Object ''object'' (Some ''optimized'') (Some 1) []))
        \<lparr>m_errors := [Error 2072 Warning (0, 4, Some ''input.yul'') ''Unused variable'']\<rparr>)
   = Inr \<lparr>m_language = StrictAssembly, m_evmVersion = 0, m_eofVersion = None,
          m_optimiserSettings = exampleSettings True [] [],
          m_debugInfoSelection = 0,
          m_charStream = Some (CharStream ''code'' ''input.yul''),
          m_stackState = AnalysisSuccessful,
          m_parserResult = Some (Object ''object'' (Some (''optimized'' @ [CHR 0x0A])) (Some 1) []),
          m_errors = [Error 2072 Warning (0, 4, Some ''input.yul'') ''Unused variable'']\<rparr>"
  using reparse_adopts_tree_of_fresh_instance
    [where X = exampleCollaborators
       and s = "(exampleStack (exampleSettings True [] []) Parsed
                   (Object ''object'' (Some ''optimized'') (Some 1) []))
                  \<lparr>m_errors := [Error 2072 Warning (0, 4, Some ''input.yul'') ''Unused variable'']\<rparr>"
       and obj = "Object ''object'' (Some ''optimized'') (Some 1) []"
       and cs = "CharStream ''code'' ''input.yul''", OF _ _ _ _ refl refl]
  by (simp add: exampleStack_def hasCode_def parseAndAnalyze_def parse_def analyzeParsed_def
      newYulStack_def exampleCollaborators_def dialectOf_def)

subsection \<open>optimize() and the round trip\<close>

text \<open>
  C2 (as stated, refuted). With the suite enabled, so that the no-op path is not taken,
  and a sub-unit on which the optimizer suite throws the unimplemented-feature fault,
  \<open>optimize()\<close> returns normally: the fault is recorded as a diagnostic, the state is the
  transient \<open>Parsed\<close>, and the working tree is the original one, partially optimized
  (the first sub-unit is, the second and the root are not).
\<close>

theorem optimize_returns_in_state_Parsed_after_fault:
  "snd (optimize exampleCollaborators
     (exampleStack (exampleSettings True ''dhfoD'' ''fDnTOcmu'') AnalysisSuccessful
        (Object ''object'' (Some ''code'') (Some 1)
           [ObjectN (Object ''a'' (Some ''code'') (Some 1) []),
            ObjectN (Object ''b'' (Some ''todo'') (Some 1) [])])))
   = Inr ((exampleStack (exampleSettings True ''dhfoD'' ''fDnTOcmu'') Parsed
        (Object ''object'' (Some ''code'') (Some 1)
           [ObjectN (Object ''a'' (Some ''code optimized'') (Some 1) []),
            ObjectN (Object ''b'' (Some ''todo'') (Some 1) [])]))
        \<lparr>m_errors := [Error 1920 UnimplementedFeatureErrorType (0, 0, None) ''not implemented'']\<rparr>)"
  by (simp add: optimize_def exampleStack_def exampleSettings_def exampleCollaborators_def
      exampleFault_def reportUnimplementedFeatureError_def dialectOf_def resolvedOptimiserSteps_def
      ends_with_def)

text \<open>
  C2 (amended). For every pipeline instance in state \<open>AnalysisSuccessful\<close> on which
  \<open>optimize()\<close> does not take the no-op path: when the recursive optimization leaves with
  no fault, \<open>optimize()\<close> is the round-trip verifier run on the optimized tree in state
  \<open>Parsed\<close>, and whenever it returns, the state is \<open>AnalysisSuccessful\<close>, the working
  tree is the tree of the fresh instance that parsed and analyzed the printed optimized
  tree successfully, and diagnostics and character stream are as before; when the
  optimizer suite throws an unimplemented-feature fault (with its message), \<open>optimize()\<close>
  records the diagnostic and returns in state \<open>Parsed\<close> with the tree as far as it was
  optimized; a failed assertion propagates.
\<close>

theorem optimize_reparses_unless_suite_faults:
  assumes "m_stackState s = AnalysisSuccessful" and "m_parserResult s = Some obj"
    and "\<not> (\<not> runYulOptimiser (m_optimiserSettings s) \<and> containsMSize X (dialectOf s) obj)"
    and "optimizeObject X (s\<lparr>m_stackState := Parsed\<rparr>) obj True = (obj', calls, thrown)"
  shows
    "(thrown = None \<longrightarrow>
        snd (optimize X s) = reparse X (s\<lparr>m_stackState := Parsed, m_parserResult := Some obj'\<rparr>) \<and>
        (\<forall>s'. snd (optimize X s) = Inr s' \<longrightarrow>
           m_stackState s' = AnalysisSuccessful \<and> m_errors s' = m_errors s \<and>
           m_charStream s' = m_charStream s \<and>
           (\<exists>cs cleanStack.
              m_charStream s = Some cs \<and>
              parseAndAnalyze X (m_name cs)
                (Object_toString X (dialectOf s) (m_debugInfoSelection s) obj' @ [CHR 0x0A])
                (newYulStack (m_evmVersion s) (m_eofVersion s) (m_language s)
                   (m_optimiserSettings s) (m_debugInfoSelection s)) = Inr (True, cleanStack) \<and>
              m_parserResult s' = m_parserResult cleanStack))) \<and>
     (\<forall>e msg. thrown = Some (Unimplemented e) \<longrightarrow> comment e = Some msg \<longrightarrow>
        snd (optimize X s) =
          Inr (s\<lparr>m_stackState := Parsed, m_parserResult := Some obj',
                 m_errors := m_errors s @ [Error 1920 UnimplementedFeatureErrorType (sourceLocation e) msg]\<rparr>)) \<and>
     (\<forall>msg. thrown = Some (Assertion msg) \<longrightarrow> snd (optimize X s) = Inl (AssertionFailed msg))"
proof (intro conjI impI allI)
  assume none: "thrown = None"
  show eq: "snd (optimize X s) = reparse X (s\<lparr>m_stackState := Parsed, m_parserResult := Some obj'\<rparr>)"
    using assms none by (auto simp: optimize_def)
  fix s'
  assume ret: "snd (optimize X s) = Inr s'"
  let ?s2 = "s\<lparr>m_stackState := Parsed, m_parserResult := Some obj'\<rparr>"
  from ret eq have r: "reparse X ?s2 = Inr s'" by simp
  then obtain cs where cs: "m_charStream s = Some cs"
    by (auto simp: reparse_def split: option.splits)
  have "m_parserResult ?s2 = Some obj'" "m_charStream ?s2 = Some cs"
    using cs by simp_all
  note rr = reparse_result [OF this, of X]
  from r rr show "m_stackState s' = AnalysisSuccessful"
    by (auto simp: dialectOf_def split: if_splits sum.splits prod.splits)
  from r rr show "m_errors s' = m_errors s"
    by (auto simp: dialectOf_def split: if_splits sum.splits prod.splits)
  from r rr show "m_charStream s' = m_charStream s"
    by (auto simp: dialectOf_def split: if_splits sum.splits prod.splits)
  from r rr cs show "\<exists>cs cleanStack.
              m_charStream s = Some cs \<and>
              parseAndAnalyze X (m_name cs)
                (Object_toString X (dialectOf s) (m_debugInfoSelection s) obj' @ [CHR 0x0A])
                (newYulStack (m_evmVersion s) (m_eofVersion s) (m_language s)
                   (m_optimiserSettings s) (m_debugInfoSelection s)) = Inr (True, cleanStack) \<and>
              m_parserResult s' = m_parserResult cleanStack"
    by (auto simp: dialectOf_def split: if_splits sum.splits prod.splits)
next
  fix e msg
  assume "thrown = Some (Unimplemented e)" "comment e = Some msg"
  then show "snd (optimize X s) =
          Inr (s\<lparr>m_stackState := Parsed, m_parserResult := Some obj',
                 m_errors := m_errors s @ [Error 1920 UnimplementedFeatureErrorType (sourceLocation e) msg]\<rparr>)"
    using assms by (auto simp: optimize_def reportUnimplementedFeatureError_def)
next
  fix msg
  assume "thrown = Some (Assertion msg)"
  then show "snd (optimize X s) = Inl (AssertionFailed msg)"
    using assms by (auto simp: optimize_def)
qed

theorem optimize_reparses_unless_suite_faults_witness:
  "snd (optimize exampleCollaborators
     (exampleStack (exampleSettings True ''dhfoD'' ''fDnTOcmu'') AnalysisSuccessful
        (Object ''object'' (Some ''code'') (Some 1)
           [ObjectN (Object ''object_deployed'' (Some ''code'') (Some 1) [])])))
   = Inr (exampleStack (exampleSettings True ''dhfoD'' ''fDnTOcmu'') AnalysisSuccessful
        (Object ''object'' (Some (''code optimized'' @ [CHR 0x0A])) (Some 1) []))"
  using optimize_reparses_unless_suite_faults [where X = exampleCollaborators
     and s = "exampleStack (exampleSettings True ''dhfoD'' ''fDnTOcmu'') AnalysisSuccessful
        (Object ''object'' (Some ''code'') (Some 1)
           [ObjectN (Object ''object_deployed'' (Some ''code'') (Some 1) [])])"
     and obj = "Object ''object'' (Some ''code'') (Some 1)
           [ObjectN (Object ''object_deployed'' (Some ''code'') (Some 1) [])]"
     and obj' = "Object ''object'' (Some ''code optimized'') (Some 1)
           [ObjectN (Object ''object_deployed'' (Some ''code optimized'') (Some 1) [])]"
     and thrown = None]
  by (simp add: exampleStack_def exampleSettings_def exampleCollaborators_def
      dialectOf_def resolvedOptimiserSteps_def ends_with_def reparse_def print_def hasCode_def
      parseAndAnalyze_def parse_def analyzeParsed_def newYulStack_def)

subsection \<open>Creation and runtime units\<close>


lemma passedAs_state [simp]: "passedAs (s\<lparr>m_stackState := st\<rparr>) = passedAs s"
  by (auto simp: passedAs_def dialectOf_def fun_eq_iff)

lemma classifiedByName_state [simp]: "classifiedByName (s\<lparr>m_stackState := st\<rparr>) = classifiedByName s"
  by (auto simp: classifiedByName_def fun_eq_iff)

lemma rootCallsAs_state [simp]: "rootCallsAs (s\<lparr>m_stackState := st\<rparr>) = rootCallsAs s"
  by (auto simp: rootCallsAs_def fun_eq_iff split: list.splits)



subsection \<open>The analyzer driver\<close>

lemma analysis_traversal:
  "Parsed \<le> m_stackState s \<Longrightarrow>
   \<forall>u\<in>set (unitsOutsideFaults X (dialectOf s) obj). unitAccepted X (dialectOf s) u \<Longrightarrow>
   \<exists>s'. analyzeParsedObject X obj s =
       Inr ((\<forall>u\<in>set (unitsOutsideFaults X (dialectOf s) obj). unitSucceeds X (dialectOf s) u),
            analysed X (dialectOf s) obj, s') \<and>
     analysisPost X s (unitsOutsideFaults X (dialectOf s) obj) s'"
  "Parsed \<le> m_stackState s \<Longrightarrow>
   \<forall>u\<in>set (unitsOutsideFaultsOfNodes X (dialectOf s) nodes). unitAccepted X (dialectOf s) u \<Longrightarrow>
   \<exists>s'. analyzeSubObjects X nodes success s =
       Inr ((success \<and> (\<forall>u\<in>set (unitsOutsideFaultsOfNodes X (dialectOf s) nodes). unitSucceeds X (dialectOf s) u)),
            analysedNodes X (dialectOf s) nodes, s') \<and>
     analysisPost X s (unitsOutsideFaultsOfNodes X (dialectOf s) nodes) s'"
proof (induction X obj s and X nodes success s rule: analyzeParsedObject_analyzeSubObjects.induct)
  case (1 X n c ai subObjs s)
  let ?d = "dialectOf s"
  let ?u = "Object n c ai subObjs"
  from 1(3) have acc: "unitAccepted X ?d ?u" by simp
  then obtain ast where c: "c = Some ast"
    by (cases c) (auto simp: unitAccepted_def unitAnalysis_def)
  obtain errs info r where an: "AsmAnalyzer_analyze X ?d
        (qualifiedDataNames X (Object n c (Some (newAsmAnalysisInfo X)) subObjs)) ast = (errs, info, r)"
    by (cases "AsmAnalyzer_analyze X ?d
        (qualifiedDataNames X (Object n c (Some (newAsmAnalysisInfo X)) subObjs)) ast") auto
  with c have ua: "unitAnalysis X ?d ?u = Some (errs, info, r)"
    by (simp add: unitAnalysis_def)
  show ?case
  proof (cases r)
    case (Inl e)
    with acc ua obtain msg where msg: "comment e = Some msg"
      by (auto simp: unitAccepted_def)
    from Inl ua have f: "unitFaults X ?d ?u" by (simp add: unitFaults_def)
    from Inl ua have ns: "\<not> unitSucceeds X ?d ?u" by (simp add: unitSucceeds_def)
    from Inl ua msg have di: "unitDiagnostics X ?d ?u =
        errs @ [Error 1920 UnimplementedFeatureErrorType (sourceLocation e) msg]"
      by (simp add: unitDiagnostics_def)
    from ua have ui: "unitInfo X ?d ?u = Some info" by (simp add: unitInfo_def)
    from 1(2) c an Inl msg f ns di ui show ?thesis
      by (simp add: reportUnimplementedFeatureError_def analysisPost_def)
  next
    case (Inr ok)
    from Inr ua have f: "\<not> unitFaults X ?d ?u" by (simp add: unitFaults_def)
    from Inr ua have ns: "unitSucceeds X ?d ?u = ok" by (simp add: unitSucceeds_def)
    from Inr ua have di: "unitDiagnostics X ?d ?u = errs"
      by (simp add: unitDiagnostics_def)
    from ua have ui: "unitInfo X ?d ?u = Some info" by (simp add: unitInfo_def)
    let ?s1 = "s\<lparr>m_errors := m_errors s @ errs\<rparr>"
    from 1(2) have p1: "Parsed \<le> m_stackState ?s1" by simp
    from 1(3) f have p2: "\<forall>u\<in>set (unitsOutsideFaultsOfNodes X (dialectOf ?s1) subObjs).
        unitAccepted X (dialectOf ?s1) u" by simp
    from 1(1) [OF _ c an [symmetric] _ Inr p1 p2] 1(2)
    obtain s' where
      sub: "analyzeSubObjects X subObjs ok ?s1 =
         Inr ((ok \<and> (\<forall>u\<in>set (unitsOutsideFaultsOfNodes X ?d subObjs). unitSucceeds X ?d u)),
            analysedNodes X ?d subObjs, s')"
      and post: "analysisPost X ?s1 (unitsOutsideFaultsOfNodes X ?d subObjs) s'"
      by auto
    from 1(2) c an Inr f ns di ui sub post show ?thesis
      by (auto simp: analysisPost_def)
  qed
next
  case (2 X success s)
  then show ?case by (simp add: analysisPost_def)
next
  case (3 X dn d rest success s)
  then show ?case
    by (auto simp: analysisPost_def split: sum.splits prod.splits)
next
  case (4 X subObject rest success s)
  let ?d = "dialectOf s"
  from 4(3,4) "4.IH"(1) obtain s1 where
    obj: "analyzeParsedObject X subObject s =
       Inr ((\<forall>u\<in>set (unitsOutsideFaults X ?d subObject). unitSucceeds X ?d u),
            analysed X ?d subObject, s1)"
    and post1: "analysisPost X s (unitsOutsideFaults X ?d subObject) s1"
    by auto
  from post1 have d1: "dialectOf s1 = ?d" and p1: "Parsed \<le> m_stackState s1"
    by (simp_all add: analysisPost_def)
  from 4(4) d1 have p2: "\<forall>u\<in>set (unitsOutsideFaultsOfNodes X (dialectOf s1) rest).
      unitAccepted X (dialectOf s1) u" by simp
  from "4.IH"(2) [OF obj refl refl p1 p2] d1
  obtain s2 where
    rest: "analyzeSubObjects X rest
             (if \<not> (\<forall>u\<in>set (unitsOutsideFaults X ?d subObject). unitSucceeds X ?d u)
              then False else success) s1 =
           Inr ((if \<not> (\<forall>u\<in>set (unitsOutsideFaults X ?d subObject). unitSucceeds X ?d u)
                 then False else success) \<and>
                (\<forall>u\<in>set (unitsOutsideFaultsOfNodes X ?d rest). unitSucceeds X ?d u),
                analysedNodes X ?d rest, s2)"
    and post2: "analysisPost X s1 (unitsOutsideFaultsOfNodes X ?d rest) s2"
    by auto
  from post1 post2 d1
  have "analysisPost X s (unitsOutsideFaultsOfNodes X ?d (ObjectN subObject # rest)) s2"
    by (simp add: analysisPost_def)
  with obj rest show ?case by auto
qed

lemma no_fault_all_units:
  "\<forall>u\<in>set (allUnits obj). \<not> unitFaults X d u \<Longrightarrow> unitsOutsideFaults X d obj = allUnits obj"
  "\<forall>u\<in>set (allUnitsOfNodes nodes). \<not> unitFaults X d u \<Longrightarrow>
     unitsOutsideFaultsOfNodes X d nodes = allUnitsOfNodes nodes"
  by (induction obj and nodes rule: allUnits_allUnitsOfNodes.induct) auto

text \<open>
  C5 (as stated, refuted). When the analyzer throws the unimplemented-feature fault on a
  unit, the unit's own analysis has failed and its sub-units are not visited: here the
  root faults, and its sub-unit \<open>A\<close>, whose code the analyzer would reject with a
  diagnostic, keeps no analysis info and contributes no diagnostic.
\<close>

theorem analysis_fault_skips_sub_units:
  "analyzeParsed exampleCollaborators
     (exampleStack (exampleSettings True [] []) Parsed
        (Object ''object'' (Some ''todo'') None [ObjectN (Object ''A'' (Some ''bad'') None [])]))
   = Inr (False,
          (exampleStack (exampleSettings True [] []) Parsed
             (Object ''object'' (Some ''todo'') (Some 0)
                [ObjectN (Object ''A'' (Some ''bad'') None [])]))
            \<lparr>m_errors := [Error 1920 UnimplementedFeatureErrorType (0, 0, None) ''not implemented'']\<rparr>)"
  by (simp add: analyzeParsed_def exampleStack_def exampleCollaborators_def exampleFault_def
      reportUnimplementedFeatureError_def dialectOf_def)

text \<open>
  C5 (amended). For every parsed tree (every unit has code, and a fault carries its
  message), the analyzer driver visits, in pre-order, every unit that is not below a unit
  on which the analyzer throws the unimplemented-feature fault: the sub-units of a unit are
  visited whether or not the unit's own analysis or an earlier sibling's analysis returned
  failure, and skipped only when the unit's own analysis throws the fault. The overall
  result of \<open>analyzeParsed\<close> is the conjunction of the success of every visited unit (a
  fault counts as failure); every visited unit contributes its diagnostics, in order, and
  is left with its analysis info. When the analyzer throws no fault, the visited units are
  all the units of the tree.
\<close>

theorem analysis_visits_units_outside_faults:
  assumes "Parsed \<le> m_stackState s" and "m_parserResult s = Some obj"
    and "\<forall>u\<in>set (unitsOutsideFaults X (dialectOf s) obj). unitAccepted X (dialectOf s) u"
  shows
    "(case analyzeParsed X s of
        Inl a \<Rightarrow> False
      | Inr (success, s') \<Rightarrow>
          success = (\<forall>u\<in>set (unitsOutsideFaults X (dialectOf s) obj). unitSucceeds X (dialectOf s) u) \<and>
          m_errors s' =
            m_errors s @ concat (map (unitDiagnostics X (dialectOf s)) (unitsOutsideFaults X (dialectOf s) obj)) \<and>
          m_parserResult s' = Some (analysed X (dialectOf s) obj)) \<and>
     ((\<forall>u\<in>set (allUnits obj). \<not> unitFaults X (dialectOf s) u) \<longrightarrow>
        unitsOutsideFaults X (dialectOf s) obj = allUnits obj)"
proof
  from analysis_traversal(1) [OF assms(1) assms(3)] obtain s' where
    "analyzeParsedObject X obj s =
       Inr ((\<forall>u\<in>set (unitsOutsideFaults X (dialectOf s) obj). unitSucceeds X (dialectOf s) u),
            analysed X (dialectOf s) obj, s')"
    and "analysisPost X s (unitsOutsideFaults X (dialectOf s) obj) s'"
    by auto
  with assms(1,2) show "case analyzeParsed X s of
        Inl a \<Rightarrow> False
      | Inr (success, s') \<Rightarrow>
          success = (\<forall>u\<in>set (unitsOutsideFaults X (dialectOf s) obj). unitSucceeds X (dialectOf s) u) \<and>
          m_errors s' =
            m_errors s @ concat (map (unitDiagnostics X (dialectOf s)) (unitsOutsideFaults X (dialectOf s) obj)) \<and>
          m_parserResult s' = Some (analysed X (dialectOf s) obj)"
    by (simp add: analyzeParsed_def analysisPost_def)
next
  show "(\<forall>u\<in>set (allUnits obj). \<not> unitFaults X (dialectOf s) u) \<longrightarrow>
        unitsOutsideFaults X (dialectOf s) obj = allUnits obj"
    using no_fault_all_units(1) [of obj X "dialectOf s"] by blast
qed

theorem analysis_visits_units_outside_faults_witness:
  "analyzeParsed exampleCollaborators
     (exampleStack (exampleSettings True [] []) Parsed
        (Object ''object'' (Some ''bad'') None
           [ObjectN (Object ''A'' (Some ''bad'') None
              [ObjectN (Object ''A_inner'' (Some ''bad'') None [])]),
            DataN ''blob'' [1, 2],
            ObjectN (Object ''B'' (Some ''todo'') None
              [ObjectN (Object ''B_inner'' (Some ''bad'') None [])]),
            ObjectN (Object ''C'' (Some ''bad'') None [])]))
   = Inr (False,
          (exampleStack (exampleSettings True [] []) Parsed
             (Object ''object'' (Some ''bad'') (Some 1)
                [ObjectN (Object ''A'' (Some ''bad'') (Some 1)
                   [ObjectN (Object ''A_inner'' (Some ''bad'') (Some 1) [])]),
                 DataN ''blob'' [1, 2],
                 ObjectN (Object ''B'' (Some ''todo'') (Some 0)
                   [ObjectN (Object ''B_inner'' (Some ''bad'') None [])]),
                 ObjectN (Object ''C'' (Some ''bad'') (Some 1) [])]))
            \<lparr>m_errors :=
               [Error 4619 DeclarationError (0, 3, None) ''Function not found in object'',
                Error 4619 DeclarationError (0, 3, None) ''Function not found in A'',
                Error 4619 DeclarationError (0, 3, None) ''Function not found in A_inner'',
                Error 1920 UnimplementedFeatureErrorType (0, 0, None) ''not implemented'',
                Error 4619 DeclarationError (0, 3, None) ''Function not found in C'']\<rparr>)"
  using analysis_visits_units_outside_faults
    [where X = exampleCollaborators
       and s = "exampleStack (exampleSettings True [] []) Parsed
                  (Object ''object'' (Some ''bad'') None
                     [ObjectN (Object ''A'' (Some ''bad'') None
                        [ObjectN (Object ''A_inner'' (Some ''bad'') None [])]),
                      DataN ''blob'' [1, 2],
                      ObjectN (Object ''B'' (Some ''todo'') None
                        [ObjectN (Object ''B_inner'' (Some ''bad'') None [])]),
                      ObjectN (Object ''C'' (Some ''bad'') None [])])"
       and obj = "Object ''object'' (Some ''bad'') None
                     [ObjectN (Object ''A'' (Some ''bad'') None
                        [ObjectN (Object ''A_inner'' (Some ''bad'') None [])]),
                      DataN ''blob'' [1, 2],
                      ObjectN (Object ''B'' (Some ''todo'') None
                        [ObjectN (Object ''B_inner'' (Some ''bad'') None [])]),
                      ObjectN (Object ''C'' (Some ''bad'') None [])]"]
  by (simp add: analyzeParsed_def exampleStack_def exampleCollaborators_def exampleFault_def
      reportUnimplementedFeatureError_def dialectOf_def unitFaults_def unitAccepted_def
      unitAnalysis_def unitSucceeds_def unitDiagnostics_def unitInfo_def)

text \<open>
  C6 (the code departs from the claim). The root's own analysis fails and the analysis of
  its sub-unit succeeds: \<open>analyzeParsed\<close> returns false, and the pipeline state is
  \<open>AnalysisSuccessful\<close>, set by the recursive call for the sub-unit.
\<close>

theorem analyzeParsed_failure_with_state_AnalysisSuccessful:
  "analyzeParsed exampleCollaborators
     (exampleStack (exampleSettings True [] []) Parsed
        (Object ''object'' (Some ''bad'') None [ObjectN (Object ''A'' (Some ''code'') None [])]))
   = Inr (False,
          (exampleStack (exampleSettings True [] []) AnalysisSuccessful
             (Object ''object'' (Some ''bad'') (Some 1)
                [ObjectN (Object ''A'' (Some ''code'') (Some 1) [])]))
            \<lparr>m_errors :=
               [Error 4619 DeclarationError (0, 3, None) ''Function not found in object'']\<rparr>)"
  by (simp add: analyzeParsed_def exampleStack_def exampleCollaborators_def dialectOf_def)

subsection \<open>Selection of the deployed assembly\<close>

lemma findSubIndex_find:
  "findSubIndex subAssemblies dn i =
     (case find (\<lambda>sub. assemblyName sub = dn) subAssemblies of
        None \<Rightarrow> None
      | Some sub \<Rightarrow> findSubIndex subAssemblies dn i)"
  "find (\<lambda>sub. assemblyName sub = dn) subAssemblies = Some sub \<Longrightarrow>
     \<exists>k. findSubIndex subAssemblies dn i = Some (i + k) \<and> k < length subAssemblies \<and>
         subAssemblies ! k = sub"
proof (induction subAssemblies arbitrary: i)
  case Nil
  { case 1 show ?case by simp }
  { case 2 then show ?case by simp }
next
  case (Cons a rest)
  { case 1 show ?case using Cons(1) [of "Suc i"] by (simp split: option.splits) }
  { case 2
    show ?case
    proof (cases "assemblyName a = dn")
      case True
      with 2 show ?thesis by (intro exI [of _ 0]) simp
    next
      case False
      with 2 Cons(2) [of "Suc i"] obtain k where
        "findSubIndex rest dn (Suc i) = Some (Suc i + k)" "k < length rest" "rest ! k = sub"
        by auto
      with False show ?thesis by (intro exI [of _ "Suc k"]) simp
    qed }
qed

text \<open>
  C8 (as stated, refuted). The tree has exactly one sub-object; the code generator emits
  its sub-assembly, and the assembler throws the unimplemented-feature fault on it. With
  no deploy name, and with the deploy name that matches, \<open>assembleWithDeployed\<close> returns
  normally with the creation object and no deployed object, the fault recorded as a
  diagnostic.
\<close>

theorem assembleWithDeployed_without_deployed_object_after_fault:
  "assembleWithDeployed exampleCollaborators None
     (exampleStack (exampleSettings True [] []) AnalysisSuccessful
        (Object ''object'' (Some ''code'') (Some 1)
           [ObjectN (Object ''todo'' (Some ''code'') (Some 1) [])]))
   = Inr ((\<lparr>mao_bytecode = Some \<lparr>bytecode = [1], immutableReferences = []\<rparr>,
            mao_assembly = Some (AssemblyC [] [1] [AssemblyC ''todo'' [] []]),
            mao_sourceMappings = Some []\<rparr>,
           emptyMachineAssemblyObject),
          (exampleStack (exampleSettings True [] []) AnalysisSuccessful
             (Object ''object'' (Some ''code'') (Some 1)
                [ObjectN (Object ''todo'' (Some ''code'') (Some 1) [])]))
            \<lparr>m_errors := [Error 1920 UnimplementedFeatureErrorType (0, 0, None) ''not implemented'']\<rparr>) \<and>
   assembleWithDeployed exampleCollaborators (Some ''todo'')
     (exampleStack (exampleSettings True [] []) AnalysisSuccessful
        (Object ''object'' (Some ''code'') (Some 1)
           [ObjectN (Object ''todo'' (Some ''code'') (Some 1) [])]))
   = Inr ((\<lparr>mao_bytecode = Some \<lparr>bytecode = [1], immutableReferences = []\<rparr>,
            mao_assembly = Some (AssemblyC [] [1] [AssemblyC ''todo'' [] []]),
            mao_sourceMappings = Some []\<rparr>,
           emptyMachineAssemblyObject),
          (exampleStack (exampleSettings True [] []) AnalysisSuccessful
             (Object ''object'' (Some ''code'') (Some 1)
                [ObjectN (Object ''todo'' (Some ''code'') (Some 1) [])]))
            \<lparr>m_errors := [Error 1920 UnimplementedFeatureErrorType (0, 0, None) ''not implemented'']\<rparr>)"
  by (simp add: assembleWithDeployed_def assembleEVMWithDeployed_def exampleCollaborators_def
      exampleStack_def exampleSettings_def exampleFault_def hasCode_def compileEVM_def
      machineAssemblyObject_def dialectOf_def reportUnimplementedFeatureError_def)

text \<open>
  C8 (amended). In \<open>assembleWithDeployed\<close>, provided the code generator, the assembly
  optimiser and the assembler throw no unimplemented-feature fault: when an explicit
  deploy name is supplied, the deployed object is the encoding of the first immediate
  sub-assembly whose name equals it, and it is a fatal error if none matches; when no name
  is supplied, the deployed object is produced iff there is exactly one sub-assembly, and
  is the encoding of that one; the creation object is the encoding of the full assembly
  tree.
\<close>

theorem assembleWithDeployed_selects_deployed_assembly:
  assumes "m_stackState s = AnalysisSuccessful" and "m_parserResult s = Some obj"
    and "hasCode obj" and "analysisInfo obj \<noteq> None" and "m_charStream s = Some cs"
    and "compileEVM X s obj (AssemblyC [] [] [])
           (optimizeStackAllocation (m_optimiserSettings s) \<or>
            (\<not> runYulOptimiser (m_optimiserSettings s) \<and> \<not> containsMSize X (dialectOf s) obj))
         = (generated, None)"
    and "Assembly_optimise X (m_optimiserSettings s) (m_evmVersion s) generated = (assembly, None)"
    and "Assembly_assemble X assembly = Inr linked" and "immutableReferences linked = []"
    and "\<forall>sub\<in>set (subs assembly). Assembly_assemble X sub = Inr (linkedSub sub)"
  shows
    "case deployName of
       Some dn \<Rightarrow>
         (case find (\<lambda>sub. assemblyName sub = dn) (subs assembly) of
            None \<Rightarrow>
              assembleWithDeployed X deployName s =
                Inl (AssertionFailed ''Failed to find object to be deployed.'')
          | Some deployed \<Rightarrow>
              assembleWithDeployed X deployName s =
                Inr ((machineAssemblyObject X cs linked assembly,
                      machineAssemblyObject X cs (linkedSub deployed) deployed), s))
     | None \<Rightarrow>
         (case subs assembly of
            [deployed] \<Rightarrow>
              assembleWithDeployed X deployName s =
                Inr ((machineAssemblyObject X cs linked assembly,
                      machineAssemblyObject X cs (linkedSub deployed) deployed), s)
          | _ \<Rightarrow>
              assembleWithDeployed X deployName s =
                Inr ((machineAssemblyObject X cs linked assembly, emptyMachineAssemblyObject), s))"
proof (cases deployName)
  case None
  with assms show ?thesis
    by (cases "subs assembly"; cases "tl (subs assembly)")
       (auto simp: assembleWithDeployed_def assembleEVMWithDeployed_def)
next
  case (Some dn)
  show ?thesis
  proof (cases "find (\<lambda>sub. assemblyName sub = dn) (subs assembly)")
    case None
    then have "findSubIndex (subs assembly) dn 0 = None"
      using findSubIndex_find(1) [of "subs assembly" dn 0] by simp
    with assms Some None show ?thesis
      by (simp add: assembleWithDeployed_def assembleEVMWithDeployed_def)
  next
    case (Some deployed)
    from findSubIndex_find(2) [OF this, of 0] obtain k where
      k: "findSubIndex (subs assembly) dn 0 = Some k" "k < length (subs assembly)"
         "subs assembly ! k = deployed"
      by auto
    then have "deployed \<in> set (subs assembly)" by auto
    with assms have "Assembly_assemble X deployed = Inr (linkedSub deployed)" by blast
    with assms \<open>deployName = Some dn\<close> Some k show ?thesis
      by (simp add: assembleWithDeployed_def assembleEVMWithDeployed_def)
  qed
qed

theorem assembleWithDeployed_selects_deployed_assembly_witness:
  "assembleWithDeployed exampleCollaborators (Some ''A_deployed'')
     (exampleStack (exampleSettings True [] []) AnalysisSuccessful
        (Object ''object'' (Some ''code'') (Some 1)
           [ObjectN (Object ''A'' (Some ''code'') (Some 1) []),
            ObjectN (Object ''A_deployed'' (Some ''code'') (Some 1) [])]))
   = Inr ((\<lparr>mao_bytecode = Some \<lparr>bytecode = [2], immutableReferences = []\<rparr>,
            mao_assembly =
              Some (AssemblyC [] [2] [AssemblyC ''A'' [] [], AssemblyC ''A_deployed'' [] []]),
            mao_sourceMappings = Some []\<rparr>,
           \<lparr>mao_bytecode = Some \<lparr>bytecode = [], immutableReferences = []\<rparr>,
            mao_assembly = Some (AssemblyC ''A_deployed'' [] []),
            mao_sourceMappings = Some []\<rparr>),
          exampleStack (exampleSettings True [] []) AnalysisSuccessful
            (Object ''object'' (Some ''code'') (Some 1)
               [ObjectN (Object ''A'' (Some ''code'') (Some 1) []),
                ObjectN (Object ''A_deployed'' (Some ''code'') (Some 1) [])])) \<and>
   assembleWithDeployed exampleCollaborators None
     (exampleStack (exampleSettings True [] []) AnalysisSuccessful
        (Object ''object'' (Some ''code'') (Some 1)
           [ObjectN (Object ''A'' (Some ''code'') (Some 1) []),
            ObjectN (Object ''A_deployed'' (Some ''code'') (Some 1) [])]))
   = Inr ((\<lparr>mao_bytecode = Some \<lparr>bytecode = [2], immutableReferences = []\<rparr>,
            mao_assembly =
              Some (AssemblyC [] [2] [AssemblyC ''A'' [] [], AssemblyC ''A_deployed'' [] []]),
            mao_sourceMappings = Some []\<rparr>,
           emptyMachineAssemblyObject),
          exampleStack (exampleSettings True [] []) AnalysisSuccessful
            (Object ''object'' (Some ''code'') (Some 1)
               [ObjectN (Object ''A'' (Some ''code'') (Some 1) []),
                ObjectN (Object ''A_deployed'' (Some ''code'') (Some 1) [])])) \<and>
   assembleWithDeployed exampleCollaborators (Some ''B'')
     (exampleStack (exampleSettings True [] []) AnalysisSuccessful
        (Object ''object'' (Some ''code'') (Some 1)
           [ObjectN (Object ''A'' (Some ''code'') (Some 1) []),
            ObjectN (Object ''A_deployed'' (Some ''code'') (Some 1) [])]))
   = Inl (AssertionFailed ''Failed to find object to be deployed.'')"
proof -
  let ?obj = "Object ''object'' (Some ''code'') (Some 1)
                [ObjectN (Object ''A'' (Some ''code'') (Some 1) []),
                 ObjectN (Object ''A_deployed'' (Some ''code'') (Some 1) [])]"
  let ?s = "exampleStack (exampleSettings True [] []) AnalysisSuccessful ?obj"
  let ?assembly = "AssemblyC [] [2] [AssemblyC ''A'' [] [], AssemblyC ''A_deployed'' [] []]"
  let ?linkedSub = "\<lambda>sub. \<lparr>bytecode = items sub, immutableReferences = []\<rparr>"
  note selects =
    assembleWithDeployed_selects_deployed_assembly
      [where X = exampleCollaborators and s = ?s and obj = ?obj
         and cs = "CharStream ''code'' ''input.yul''" and generated = ?assembly
         and assembly = ?assembly and linked = "\<lparr>bytecode = [2], immutableReferences = []\<rparr>"
         and linkedSub = ?linkedSub]
  have h: "m_stackState ?s = AnalysisSuccessful" "m_parserResult ?s = Some ?obj" "hasCode ?obj"
    "analysisInfo ?obj \<noteq> None" "m_charStream ?s = Some (CharStream ''code'' ''input.yul'')"
    "compileEVM exampleCollaborators ?s ?obj (AssemblyC [] [] [])
       (optimizeStackAllocation (m_optimiserSettings ?s) \<or>
        (\<not> runYulOptimiser (m_optimiserSettings ?s) \<and>
         \<not> containsMSize exampleCollaborators (dialectOf ?s) ?obj))
     = (?assembly, None)"
    "Assembly_optimise exampleCollaborators (m_optimiserSettings ?s) (m_evmVersion ?s) ?assembly
     = (?assembly, None)"
    "Assembly_assemble exampleCollaborators ?assembly = Inr \<lparr>bytecode = [2], immutableReferences = []\<rparr>"
    "immutableReferences \<lparr>bytecode = [2], immutableReferences = []\<rparr> = []"
    "\<forall>sub\<in>set (subs ?assembly). Assembly_assemble exampleCollaborators sub = Inr (?linkedSub sub)"
    by (simp_all add: exampleStack_def exampleSettings_def exampleCollaborators_def hasCode_def
        compileEVM_def)
  from selects [OF h, of "Some ''A_deployed''"] selects [OF h, of None] selects [OF h, of "Some ''B''"]
  show ?thesis
    by (simp add: machineAssemblyObject_def exampleCollaborators_def)
qed

end
